theory Spec2Isabelle
  imports Complex_Main
begin

section \<open>JavaScript values that cross the Probo client\<close>

text \<open>
  Upstream bodies are parsed JSON. A number is a rational (every finite double is
  one). A string is the list of its code units, for code units below 256. An object is
  an association list in member order, with distinct member names.
\<close>

datatype json =
    JNull
  | JBool bool
  | JNum rat
  | JStr string
  | JArr "json list"
  | JObj "(string \<times> json) list"

text \<open>Truthiness as the \<open>if (x)\<close>, \<open>x ? a : b\<close> and \<open>x || y\<close> of the source test it.\<close>

fun truthy :: "json \<Rightarrow> bool" where
  "truthy JNull = False"
| "truthy (JBool b) = b"
| "truthy (JNum n) = (n \<noteq> 0)"
| "truthy (JStr s) = (s \<noteq> [])"
| "truthy (JArr xs) = True"
| "truthy (JObj kvs) = True"

text \<open>
  Member access \<open>v.k\<close> for the member names the source reads this way (\<open>message\<close>,
  \<open>errors\<close>, \<open>data\<close>, \<open>meta\<close>, \<open>order\<close>, \<open>id\<close>): \<open>None\<close> is \<open>undefined\<close>. Strings,
  numbers, booleans and arrays have no such member; reading a member of \<open>null\<close> raises
  and is handled where it can happen. The member \<open>length\<close> is read by \<open>length_member\<close>.
\<close>

fun get_prop :: "json \<Rightarrow> string \<Rightarrow> json option" where
  "get_prop (JObj kvs) k = map_of kvs k"
| "get_prop v k = None"

definition truthy_prop :: "json \<Rightarrow> string \<Rightarrow> bool" where
  "truthy_prop v k = (case get_prop v k of None \<Rightarrow> False | Some x \<Rightarrow> truthy x)"

subsection \<open>Numbers and values inside template literals\<close>

text \<open>
  Decimal numerals, for the natural numbers the source prints itself: an HTTP status,
  the length of an array or a string, a count of list entries, the millisecond clock.
\<close>

definition digit_char :: "nat \<Rightarrow> char" where
  "digit_char d = ''0123456789'' ! d"

function show_nat :: "nat \<Rightarrow> string" where
  "show_nat n = (if n < 10 then [digit_char n] else show_nat (n div 10) @ [digit_char (n mod 10)])"
  by pat_completeness auto
termination
  by (relation "measure id") auto

declare show_nat.simps [simp del]

fun join_with :: "string \<Rightarrow> string list \<Rightarrow> string" where
  "join_with sep [] = []"
| "join_with sep [x] = x"
| "join_with sep (x # y # ys) = x @ sep @ join_with sep (y # ys)"

text \<open>
  \<open>`${v}`\<close>, the conversion of a value to a string; \<open>None\<close> is the \<open>TypeError\<close> the
  engine raises instead. A string is itself. A number prints as the platform's
  serialiser prints it (\<open>JSON.stringify\<close> of a finite number is its string conversion),
  so the serialiser, a parameter, is used. An array is the comma-joined conversions of
  its elements, where \<open>null\<close> elements contribute nothing, and raises when an element
  does. An object that has a member named \<open>toString\<close> of its own raises (the member of
  a parsed object is data, not a function, and \<open>valueOf\<close> gives back the object); any
  other object is \<open>[object Object]\<close>.
\<close>

fun to_str :: "(json \<Rightarrow> string) \<Rightarrow> json \<Rightarrow> string option" where
  "to_str stringify JNull = Some ''null''"
| "to_str stringify (JBool b) = Some (if b then ''true'' else ''false'')"
| "to_str stringify (JNum n) = Some (stringify (JNum n))"
| "to_str stringify (JStr s) = Some s"
| "to_str stringify (JArr xs) =
     map_option (join_with '','')
       (those (map (\<lambda>x. if x = JNull then Some [] else to_str stringify x) xs))"
| "to_str stringify (JObj kvs) =
     (if map_of kvs ''toString'' = None then Some ''[object Object]'' else None)"

text \<open>The message of the \<open>TypeError\<close> of a failed conversion.\<close>

definition conversion_message :: string where
  "conversion_message = ''Cannot convert object to primitive value''"

text \<open>
  \<open>v.length\<close>: the length of an array or a string, the member of that name of an
  object, \<open>undefined\<close> otherwise.
\<close>

definition length_member :: "json \<Rightarrow> json option" where
  "length_member v =
     (case v of
        JArr xs \<Rightarrow> Some (JNum (of_nat (length xs)))
      | JStr s \<Rightarrow> Some (JNum (of_nat (length s)))
      | JObj kvs \<Rightarrow> map_of kvs ''length''
      | _ \<Rightarrow> None)"

text \<open>
  A value none of whose objects has a member named \<open>toString\<close>: every conversion of
  it, and of its parts, succeeds.
\<close>

fun printable :: "json \<Rightarrow> bool" where
  "printable (JArr xs) = list_all printable xs"
| "printable (JObj kvs) = (map_of kvs ''toString'' = None \<and> list_all printable (map snd kvs))"
| "printable v = True"

section \<open>The error normaliser (\<open>handleApiError\<close>, proboClient.js)\<close>

text \<open>
  What a \<open>catch\<close> block of the client receives: the transport's error carries a
  \<open>response\<close> (status and body) when the upstream answered, a \<open>request\<close> when the
  request left without an answer, and always a \<open>message\<close>.
\<close>

record http_error =
  err_response :: "(nat \<times> json) option"
  err_request :: bool
  err_message :: string

text \<open>
  A raised \<open>Error\<close> object: its message and its \<open>data\<close> member (\<open>None\<close> when the
  object has no such member, \<open>Some JNull\<close> when it is \<open>null\<close>).
\<close>

record js_error =
  message :: string
  data :: "json option"

abbreviation nl :: char where
  "nl \<equiv> CHR 0x0A"

text \<open>\<open>s.split('\n')\<close>: the empty string gives one empty piece.\<close>

fun split_nl :: "string \<Rightarrow> string list" where
  "split_nl [] = [[]]"
| "split_nl (c # cs) =
     (if c = nl then [] # split_nl cs
      else (c # hd (split_nl cs)) # tl (split_nl cs))"

text \<open>\<open>[...new Set(xs)]\<close>: first occurrences, in insertion order.\<close>

definition set_insert :: "'a list \<Rightarrow> 'a \<Rightarrow> 'a list" where
  "set_insert seen x = (if x \<in> set seen then seen else seen @ [x])"

definition unique_in_order :: "'a list \<Rightarrow> 'a list" where
  "unique_in_order xs = foldl set_insert [] xs"

text \<open>
  The two pieces both branches of the validation block share: one \<open>\n- entry\<close> per
  listed element, and the note on the remainder when the list has more than ten.
\<close>

definition entry_lines :: "string list \<Rightarrow> string" where
  "entry_lines errs = concat (map (\<lambda>err. nl # ''- '' @ err) errs)"

definition more_errors :: "nat \<Rightarrow> string" where
  "more_errors n =
     (if n > 10 then nl # ''... and '' @ show_nat (n - 10) @ '' more errors'' else [])"

text \<open>
  The validation block after its heading. The pieces of a string are strings; the first
  ten elements of a list are converted one by one, and a failed conversion raises.
\<close>

definition validation_errors :: "(json \<Rightarrow> string) \<Rightarrow> json \<Rightarrow> string option" where
  "validation_errors stringify errors =
     (case errors of
        JStr s \<Rightarrow>
          (let uniqueErrors = unique_in_order (split_nl s)
           in Some (entry_lines (take 10 uniqueErrors) @ more_errors (length uniqueErrors)))
      | JArr xs \<Rightarrow>
          (case those (map (to_str stringify) (take 10 xs)) of
             None \<Rightarrow> None
           | Some listed \<Rightarrow> Some (entry_lines listed @ more_errors (length xs)))
      | _ \<Rightarrow> Some [])"

definition body_detail :: "(json \<Rightarrow> string) \<Rightarrow> json \<Rightarrow> string option" where
  "body_detail stringify d =
     (if truthy_prop d ''message''
      then (case get_prop d ''message'' of
              Some m \<Rightarrow> map_option (\<lambda>t. '' - '' @ t) (to_str stringify m)
            | None \<Rightarrow> Some [])
      else Some (case d of JStr s \<Rightarrow> '' - '' @ s | _ \<Rightarrow> '' - '' @ stringify d))"

text \<open>
  The message built for a failure with a response; \<open>None\<close> when one of its template
  literals raises.
\<close>

definition response_message :: "(json \<Rightarrow> string) \<Rightarrow> string \<Rightarrow> nat \<Rightarrow> json \<Rightarrow> string option" where
  "response_message stringify errorMessage status d =
     (if truthy d
      then (case body_detail stringify d of
              None \<Rightarrow> None
            | Some detail \<Rightarrow>
                (if status = 400 \<and> truthy_prop d ''errors''
                 then (case get_prop d ''errors'' of
                         Some errors \<Rightarrow>
                           (case validation_errors stringify errors of
                              None \<Rightarrow> None
                            | Some listing \<Rightarrow>
                                Some (errorMessage @ '': HTTP '' @ show_nat status @ detail @
                                      nl # ''Validation errors:'' @ listing))
                       | None \<Rightarrow> Some (errorMessage @ '': HTTP '' @ show_nat status @ detail))
                 else Some (errorMessage @ '': HTTP '' @ show_nat status @ detail)))
      else Some (errorMessage @ '': HTTP '' @ show_nat status))"

text \<open>
  \<open>handleApiError(error, message)\<close>. \<open>JSON.stringify\<close> is the platform's serialiser and
  is a parameter. The function ends in \<open>throw enhancedError\<close>, so its result is \<open>Inl\<close>
  of the raised error, and \<open>Inr\<close> would be a normal return. When a template literal
  raises on the way, what leaves the function is that \<open>TypeError\<close>, which has no
  \<open>data\<close> member.
\<close>

definition handleApiError :: "(json \<Rightarrow> string) \<Rightarrow> http_error \<Rightarrow> string \<Rightarrow> js_error + 'a" where
  "handleApiError stringify error prefix =
     (let errorMessage = (if prefix = [] then ''API request failed'' else prefix) in
      case err_response error of
        Some (status, d) \<Rightarrow>
          (case response_message stringify errorMessage status d of
             None \<Rightarrow> Inl \<lparr> message = conversion_message, data = None \<rparr>
           | Some m \<Rightarrow> Inl \<lparr> message = m, data = Some d \<rparr>)
      | None \<Rightarrow>
          if err_request error
          then Inl \<lparr> message = errorMessage @ '': No response received'', data = Some JNull \<rparr>
          else Inl \<lparr> message = errorMessage @ '': '' @ err_message error, data = Some JNull \<rparr>)"

text \<open>
  The listing as the specification words it, to be compared with the code's: a string
  is split on newlines and de-duplicated, a list is used as it is (each entry as the
  text it converts to); the first ten entries are listed, and the entries beyond the
  tenth are counted in a closing line.
\<close>

fun dedup_first :: "'a list \<Rightarrow> 'a list" where
  "dedup_first [] = []"
| "dedup_first (x # xs) = x # dedup_first (filter (\<lambda>y. y \<noteq> x) xs)"

definition spec_error_entries :: "(json \<Rightarrow> string) \<Rightarrow> json \<Rightarrow> string list option" where
  "spec_error_entries stringify errors =
     (case errors of
        JStr s \<Rightarrow> Some (dedup_first (split_nl s))
      | JArr xs \<Rightarrow> those (map (to_str stringify) xs)
      | _ \<Rightarrow> Some [])"

definition spec_error_listing :: "string list \<Rightarrow> string" where
  "spec_error_listing entries =
     concat (map (\<lambda>e. nl # ''- '' @ e) (take 10 entries)) @
     (case drop 10 entries of
        [] \<Rightarrow> []
      | r # rest \<Rightarrow> nl # ''... and '' @ show_nat (length (r # rest)) @ '' more errors'')"

section \<open>Configuration and small idioms\<close>

text \<open>\<open>process.env.PROBO_API_MODE || 'test'\<close>, from the environment variable if set.\<close>

definition PROBO_API_MODE :: "string option \<Rightarrow> string" where
  "PROBO_API_MODE env = (case env of None \<Rightarrow> ''test'' | Some v \<Rightarrow> if v = [] then ''test'' else v)"

text \<open>\<open>x || d\<close> on an optional string, an optional number and an optional value.\<close>

definition or_string :: "string option \<Rightarrow> string \<Rightarrow> string" where
  "or_string x d = (case x of None \<Rightarrow> d | Some s \<Rightarrow> if s = [] then d else s)"

definition or_number :: "rat option \<Rightarrow> rat \<Rightarrow> rat" where
  "or_number x d = (case x of None \<Rightarrow> d | Some n \<Rightarrow> if n = 0 then d else n)"

definition or_json :: "json option \<Rightarrow> json \<Rightarrow> json" where
  "or_json x d = (case x of None \<Rightarrow> d | Some v \<Rightarrow> if truthy v then v else d)"

text \<open>\<open>xs && xs.length > 0\<close> on an optional array.\<close>

definition has_items :: "'a list option \<Rightarrow> bool" where
  "has_items x = (case x of None \<Rightarrow> False | Some xs \<Rightarrow> length xs > 0)"

text \<open>
  The error the engine raises when a member of \<open>null\<close> is read, as a \<open>catch\<close> block
  sees it: no response, no request, the engine's message.
\<close>

definition null_member_message :: "string \<Rightarrow> string" where
  "null_member_message k = ''Cannot read properties of null (reading '' @ [CHR 0x27] @ k @ [CHR 0x27] @ '')''"

definition null_member_error :: "string \<Rightarrow> http_error" where
  "null_member_error k =
     \<lparr> err_response = None, err_request = False, err_message = null_member_message k \<rparr>"

text \<open>Likewise the error of a failed conversion inside a \<open>try\<close>.\<close>

definition conversion_error :: http_error where
  "conversion_error =
     \<lparr> err_response = None, err_request = False, err_message = conversion_message \<rparr>"

section \<open>\<open>getProducts\<close>\<close>

record search_options =
  page :: "rat option"
  per_page :: "rat option"

text \<open>
  The request path. \<open>URLSearchParams\<close> always holds \<open>page\<close> and \<open>per_page\<close>, so the
  query string is never empty. Each value is stored as its string conversion (for a
  number, what the serialiser prints) and written out by the form encoding \<open>encode\<close>,
  a parameter.
\<close>

definition products_url ::
  "(string \<Rightarrow> string) \<Rightarrow> (json \<Rightarrow> string) \<Rightarrow> string \<Rightarrow> search_options \<Rightarrow> string" where
  "products_url encode stringify query options =
     ''/products?page='' @ encode (stringify (JNum (or_number (page options) 1))) @
     ''&per_page='' @ encode (stringify (JNum (or_number (per_page options) 20))) @
     (if query \<noteq> [] then ''&search='' @ encode query else [])"

text \<open>
  \<open>`${transformedData.products.length}`\<close> in the log line of \<open>getProducts\<close>: the
  text, or \<open>None\<close> when the conversion raises.
\<close>

definition length_text :: "(json \<Rightarrow> string) \<Rightarrow> json \<Rightarrow> string option" where
  "length_text stringify v =
     (case v of
        JArr xs \<Rightarrow> Some (show_nat (length xs))
      | JStr s \<Rightarrow> Some (show_nat (length s))
      | _ \<Rightarrow> (case length_member v of None \<Rightarrow> Some ''undefined'' | Some x \<Rightarrow> to_str stringify x))"

text \<open>
  \<open>client_get url\<close> is the transport: \<open>Inr\<close> of the response body, or \<open>Inl\<close> of the
  error it rejects with. A body \<open>null\<close> makes \<open>responseData.data\<close> raise inside the
  \<open>try\<close>, and so may the template literal of the log line; the \<open>catch\<close> hands either
  error to the normaliser.
\<close>

definition getProducts ::
  "(json \<Rightarrow> string) \<Rightarrow> (string \<Rightarrow> string) \<Rightarrow> (string \<Rightarrow> http_error + json) \<Rightarrow>
   string option \<Rightarrow> search_options \<Rightarrow> js_error + json" where
  "getProducts stringify encode client_get query options =
     (let url = products_url encode stringify (case query of None \<Rightarrow> [] | Some q \<Rightarrow> q) options in
      case client_get url of
        Inr responseData \<Rightarrow>
          (if responseData = JNull
           then handleApiError stringify (null_member_error ''data'') ''Failed to fetch products''
           else (let products = or_json (get_prop responseData ''data'') (JArr []);
                     meta = or_json (get_prop responseData ''meta'') (JObj [])
                 in case length_text stringify products of
                      None \<Rightarrow> handleApiError stringify conversion_error ''Failed to fetch products''
                    | Some logged \<Rightarrow> Inr (JObj [(''products'', products), (''meta'', meta)])))
      | Inl error \<Rightarrow> handleApiError stringify error ''Failed to fetch products'')"

section \<open>\<open>configureProduct\<close>\<close>

record product_option =
  opt_code :: string
  opt_value :: json

record address =
  address_company_name :: "string option"
  address_first_name :: string
  address_last_name :: string
  address_street :: string
  address_house_number :: string
  address_addition :: "string option"
  address_postal_code :: string
  address_city :: string
  address_country :: string
  address_telephone_number :: "string option"
  address_email :: "string option"

text \<open>
  Option arrays are mutable and shared with the caller, so they live in a store: a
  reference is an index into the list of arrays, and a new array takes the next index.
\<close>

type_synonym heap = "product_option list list"

definition array_new :: "heap \<Rightarrow> product_option list \<Rightarrow> heap \<times> nat" where
  "array_new h xs = (h @ [xs], length h)"

definition array_push :: "heap \<Rightarrow> nat \<Rightarrow> product_option \<Rightarrow> heap" where
  "array_push h r x = h[r := (h ! r) @ [x]]"

record configured_product =
  cp_code :: string
  cp_options :: nat

record configure_payload =
  cfg_products :: "configured_product list"
  cfg_language :: string
  cfg_deliveries :: "address list option"

text \<open>
  Lines 135 to 167 of \<open>configureProduct\<close>: the copy \<open>[...options]\<close>, the two tests, the
  two \<open>push\<close>es onto the copy, and the payload that refers to the copy. An omitted
  \<open>options\<close> argument is a new empty array, an omitted \<open>language\<close> is \<open>en\<close>.
\<close>

definition configureProduct_payload ::
  "heap \<Rightarrow> string \<Rightarrow> nat option \<Rightarrow> address option \<Rightarrow> string option \<Rightarrow> configure_payload \<times> heap" where
  "configureProduct_payload h productCode options addr lang =
     (let (h0, opts) = (case options of None \<Rightarrow> array_new h [] | Some r \<Rightarrow> (h, r));
          (h1, productOptions) = array_new h0 (h0 ! opts);
          hasWidth = list_ex (\<lambda>opt. opt_code opt = ''width'' \<or> opt_code opt = ''width_mm'')
                       (h1 ! productOptions);
          hasHeight = list_ex (\<lambda>opt. opt_code opt = ''height'' \<or> opt_code opt = ''height_mm'')
                        (h1 ! productOptions);
          h2 = (if \<not> hasWidth
                then array_push h1 productOptions \<lparr> opt_code = ''width'', opt_value = JNum 1000 \<rparr>
                else h1);
          h3 = (if \<not> hasHeight
                then array_push h2 productOptions \<lparr> opt_code = ''height'', opt_value = JNum 1000 \<rparr>
                else h2)
      in (\<lparr> cfg_products = [\<lparr> cp_code = productCode, cp_options = productOptions \<rparr>],
            cfg_language = (case lang of None \<Rightarrow> ''en'' | Some l \<Rightarrow> l),
            cfg_deliveries = (case addr of None \<Rightarrow> None | Some a \<Rightarrow> Some [a]) \<rparr>,
          h3))"

text \<open>
  The whole operation. The transport reads the payload and the store; the product
  lookup inside the \<open>catch\<close> only writes to the log and swallows its own failure.
\<close>

definition configureProduct ::
  "(json \<Rightarrow> string) \<Rightarrow> (string \<Rightarrow> configure_payload \<Rightarrow> heap \<Rightarrow> http_error + json) \<Rightarrow>
   heap \<Rightarrow> string \<Rightarrow> nat option \<Rightarrow> address option \<Rightarrow> string option \<Rightarrow> (js_error + json) \<times> heap" where
  "configureProduct stringify client_post h productCode options addr lang =
     (let (payload, h') = configureProduct_payload h productCode options addr lang in
      (case client_post ''/products/configure'' payload h' of
         Inr body \<Rightarrow> Inr body
       | Inl error \<Rightarrow> handleApiError stringify error ''Failed to configure product'',
       h'))"

text \<open>The option list the built payload carries, read through the store.\<close>

definition payload_options :: "configure_payload \<times> heap \<Rightarrow> product_option list" where
  "payload_options ph = concat (map (\<lambda>p. snd ph ! cp_options p) (cfg_products (fst ph)))"

section \<open>\<open>placeOrder\<close>\<close>

record formatted_address =
  company_name :: string
  first_name :: string
  last_name :: string
  street :: string
  house_number :: string
  addition :: string
  postal_code :: string
  city :: string
  country :: string
  phone :: string
  email :: string

definition formattedAddress :: "address \<Rightarrow> formatted_address" where
  "formattedAddress a =
     \<lparr> company_name = or_string (address_company_name a) [],
       first_name = address_first_name a,
       last_name = address_last_name a,
       street = address_street a,
       house_number = address_house_number a,
       addition = or_string (address_addition a) [],
       postal_code = address_postal_code a,
       city = address_city a,
       country = address_country a,
       phone = or_string (address_telephone_number a) [],
       email = or_string (address_email a) [] \<rparr>"

text \<open>
  A product of the caller's configuration: every member may be missing. Options, files
  and uploaders are arrays of arbitrary values.
\<close>

record order_product =
  prod_code :: "string option"
  customer_code :: "string option"
  prod_options :: "json list option"
  prod_files :: "json list option"
  prod_uploader :: "json option"
  prod_uploaders :: "json list option"

record formatted_product =
  fp_code :: "string option"
  fp_options :: "json list option"
  fp_files :: "json list option"
  fp_uploader :: "json option"
  fp_uploaders :: "json list option"

definition placeholder_file :: json where
  "placeholder_file = JObj [(''uri'', JStr ''https://placekitten.com/800/600''), (''fill'', JBool True)]"

text \<open>The callback of \<open>(configuration.products || []).map\<close>.\<close>

definition formattedProduct :: "order_product \<Rightarrow> formatted_product" where
  "formattedProduct product =
     \<lparr> fp_code = (case prod_code product of
                    None \<Rightarrow> customer_code product
                  | Some c \<Rightarrow> if c = [] then customer_code product else Some c),
       fp_options = (if has_items (prod_options product) then prod_options product else None),
       fp_files = (if has_items (prod_files product) then prod_files product
                   else if \<not> has_items (prod_options product) then Some [placeholder_file]
                   else None),
       fp_uploader = (case prod_uploader product of
                        None \<Rightarrow> None
                      | Some u \<Rightarrow> if truthy u then Some u else None),
       fp_uploaders = (if has_items (prod_uploaders product) then prod_uploaders product else None) \<rparr>"

record configuration =
  conf_products :: "order_product list option"
  conf_language :: "string option"

datatype string_or_list = Single string | Multiple "string list"

fun truthy_sl :: "string_or_list \<Rightarrow> bool" where
  "truthy_sl (Single s) = (s \<noteq> [])"
| "truthy_sl (Multiple xs) = True"

text \<open>\<open>Array.isArray(x) ? x : [x]\<close>\<close>

fun as_array :: "string_or_list \<Rightarrow> string list" where
  "as_array (Multiple xs) = xs"
| "as_array (Single s) = [s]"

record additional_options =
  orderId :: "string option"
  contactEmail :: "string option"
  callbackUrl :: "string_or_list option"
  errorEmails :: "string_or_list option"
  shippingMethodPreset :: "string option"
  deliveryDatePreset :: "string option"

definition no_additional_options :: additional_options where
  "no_additional_options =
     \<lparr> orderId = None, contactEmail = None, callbackUrl = None, errorEmails = None,
       shippingMethodPreset = None, deliveryDatePreset = None \<rparr>"

record delivery =
  delivery_address :: formatted_address
  shipping_method_preset :: string
  delivery_date_preset :: string

record order_payload =
  order_type :: string
  reference :: string
  order_id :: string
  contact_email :: string
  callback_url :: "string list option"
  error_email_addresses :: "string list option"
  deliveries :: "delivery list"
  products :: "formatted_product list"

text \<open>
  Lines 209 to 298 of \<open>placeOrder\<close>. \<open>mode\<close> is the configured mode flag and \<open>now\<close> the
  reading of \<open>Date.now()\<close> (milliseconds) at the call. An omitted \<open>isTest\<close> takes the
  default \<open>PROBO_API_MODE === 'test'\<close>, an omitted \<open>additionalOptions\<close> is \<open>{}\<close>. A
  conditional spread leaves its member out of the payload: \<open>None\<close>.
\<close>

definition orderPayload ::
  "string \<Rightarrow> nat \<Rightarrow> configuration \<Rightarrow> address \<Rightarrow> string \<Rightarrow> bool option \<Rightarrow>
   additional_options option \<Rightarrow> order_payload" where
  "orderPayload mode now config addr ref isTest additionalOptions =
     (let isTest' = (case isTest of None \<Rightarrow> mode = ''test'' | Some b \<Rightarrow> b);
          ao = (case additionalOptions of None \<Rightarrow> no_additional_options | Some x \<Rightarrow> x)
      in \<lparr> order_type = (if isTest' then ''test'' else ''production''),
            reference = ref,
            order_id = or_string (orderId ao) (''order-'' @ show_nat now),
            contact_email = or_string (address_email addr) (or_string (contactEmail ao) []),
            callback_url = (case callbackUrl ao of
                              None \<Rightarrow> None
                            | Some u \<Rightarrow> if truthy_sl u then Some (as_array u) else None),
            error_email_addresses = (case errorEmails ao of
                                       None \<Rightarrow> None
                                     | Some u \<Rightarrow> if truthy_sl u then Some (as_array u) else None),
            deliveries = [\<lparr> delivery_address = formattedAddress addr,
                            shipping_method_preset = or_string (shippingMethodPreset ao) ''cheapest'',
                            delivery_date_preset = or_string (deliveryDatePreset ao) ''cheapest'' \<rparr>],
            products = map formattedProduct
                         (case conf_products config of None \<Rightarrow> [] | Some ps \<Rightarrow> ps) \<rparr>)"

definition placeOrder ::
  "(json \<Rightarrow> string) \<Rightarrow> (string \<Rightarrow> order_payload \<Rightarrow> http_error + json) \<Rightarrow> string \<Rightarrow> nat \<Rightarrow>
   configuration \<Rightarrow> address \<Rightarrow> string \<Rightarrow> bool option \<Rightarrow> additional_options option \<Rightarrow>
   js_error + json" where
  "placeOrder stringify client_post mode now config addr ref isTest additionalOptions =
     (case client_post ''/order'' (orderPayload mode now config addr ref isTest additionalOptions) of
        Inr body \<Rightarrow> Inr body
      | Inl error \<Rightarrow> handleApiError stringify error ''Failed to place order'')"

section \<open>\<open>getOrderStatus\<close>, \<open>getAllOrders\<close> and \<open>cancelOrder\<close>\<close>

text \<open>\<open>{ orders: orderIds.map(id => ({ id })) }\<close> and \<open>{ id: orderId }\<close>.\<close>

definition orderStatus_payload :: "string list \<Rightarrow> json" where
  "orderStatus_payload orderIds =
     JObj [(''orders'', JArr (map (\<lambda>i. JObj [(''id'', JStr i)]) orderIds))]"

definition cancel_payload :: "string \<Rightarrow> json" where
  "cancel_payload cancelId = JObj [(''id'', JStr cancelId)]"

definition getOrderStatus ::
  "(json \<Rightarrow> string) \<Rightarrow> (string \<Rightarrow> json \<Rightarrow> http_error + json) \<Rightarrow> string list \<Rightarrow> js_error + json" where
  "getOrderStatus stringify client_post orderIds =
     (case client_post ''/order/status'' (orderStatus_payload orderIds) of
        Inr body \<Rightarrow> Inr body
      | Inl error \<Rightarrow> handleApiError stringify error ''Failed to get order status'')"

definition cancelOrder ::
  "(json \<Rightarrow> string) \<Rightarrow> (string \<Rightarrow> json \<Rightarrow> http_error + json) \<Rightarrow> string \<Rightarrow> js_error + json" where
  "cancelOrder stringify client_post cancelId =
     (case client_post ''/order/cancel'' (cancel_payload cancelId) of
        Inr body \<Rightarrow> Inr body
      | Inl error \<Rightarrow> handleApiError stringify error ''Failed to cancel order'')"

text \<open>
  The filters of \<open>getAllOrders\<close>: the members present, in order, each a string or a
  number. \<open>new URLSearchParams(filters)\<close> stores every value as its string conversion;
  \<open>serialize\<close>, a parameter, is its \<open>toString()\<close> on the stored pairs.
\<close>

datatype filter_value = FStr string | FNum rat

fun filter_text :: "(json \<Rightarrow> string) \<Rightarrow> filter_value \<Rightarrow> string" where
  "filter_text stringify (FStr s) = s"
| "filter_text stringify (FNum n) = stringify (JNum n)"

definition orders_url ::
  "((string \<times> string) list \<Rightarrow> string) \<Rightarrow> (json \<Rightarrow> string) \<Rightarrow> (string \<times> filter_value) list \<Rightarrow> string" where
  "orders_url serialize stringify filters =
     ''/orders?'' @ serialize (map (\<lambda>kv. (fst kv, filter_text stringify (snd kv))) filters)"

definition getAllOrders ::
  "(json \<Rightarrow> string) \<Rightarrow> ((string \<times> string) list \<Rightarrow> string) \<Rightarrow> (string \<Rightarrow> http_error + json) \<Rightarrow>
   (string \<times> filter_value) list option \<Rightarrow> js_error + json" where
  "getAllOrders stringify serialize client_get filters =
     (case client_get (orders_url serialize stringify (case filters of None \<Rightarrow> [] | Some f \<Rightarrow> f)) of
        Inr body \<Rightarrow> Inr body
      | Inl error \<Rightarrow> handleApiError stringify error ''Failed to get orders'')"

section \<open>Tool handlers (server.js)\<close>

text \<open>
  The second argument of \<open>formatResult\<close>: a plain value on success, and in the \<open>catch\<close>
  blocks an object literal \<open>{ error: x }\<close> whose member is a message string or the
  caught \<open>Error\<close> itself. \<open>ErrorData x d\<close> is \<open>{ error: x, details: d }\<close>, with
  \<open>details\<close> missing when \<open>d\<close> is \<open>None\<close>.
\<close>

datatype error_member = ErrText string | ErrObject js_error

datatype tool_data = Plain json | ErrorData error_member "json option"

text \<open>
  The tool result. \<open>result_text\<close> is the text of the first content entry;
  \<open>result_data\<close> is \<open>formattedData\<close>, the value whose serialisation is the text of the
  second.
\<close>

record uniform_result =
  result_text :: string
  result_data :: tool_data
  isError :: bool

text \<open>
  \<open>isError && data.error && data.error instanceof Error && data.error.data\<close>: only an
  \<open>Error\<close> object with a truthy \<open>data\<close> member is unpacked into message and details.
\<close>

definition formatResult :: "string \<Rightarrow> tool_data \<Rightarrow> bool \<Rightarrow> uniform_result" where
  "formatResult text d isErr =
     \<lparr> result_text = text,
       result_data =
         (case d of
            ErrorData (ErrObject e) dt \<Rightarrow>
              (if isErr \<and> (case data e of None \<Rightarrow> False | Some x \<Rightarrow> truthy x)
               then ErrorData (ErrText (message e)) (data e)
               else d)
          | _ \<Rightarrow> d),
       isError = isErr \<rparr>"

text \<open>
  \<open>`${result.products?.length || 0}`\<close>: the text, or \<open>None\<close> when the conversion
  raises. A length 0 and a missing or falsy \<open>length\<close> member give \<open>0\<close>.
\<close>

definition count_text :: "(json \<Rightarrow> string) \<Rightarrow> json \<Rightarrow> string option" where
  "count_text stringify result =
     (case get_prop result ''products'' of
        None \<Rightarrow> Some ''0''
      | Some (JArr xs) \<Rightarrow> Some (show_nat (length xs))
      | Some (JStr s) \<Rightarrow> Some (show_nat (length s))
      | Some v \<Rightarrow>
          (case length_member v of
             None \<Rightarrow> Some ''0''
           | Some x \<Rightarrow> if truthy x then to_str stringify x else Some ''0''))"

text \<open>
  The five handlers other than \<open>placeOrder\<close> share one \<open>catch\<close> block, which passes
  the message of the caught error. An error raised by the \<open>try\<close> block's own template
  literal is caught by it as well.
\<close>

definition caught_message :: "string \<Rightarrow> uniform_result" where
  "caught_message errorMessage =
     formatResult (''Error: '' @ errorMessage) (ErrorData (ErrText errorMessage) None) True"

definition searchProducts_tool ::
  "(json \<Rightarrow> string) \<Rightarrow> (string \<Rightarrow> string) \<Rightarrow> (string \<Rightarrow> http_error + json) \<Rightarrow>
   string option \<Rightarrow> string option \<Rightarrow> rat option \<Rightarrow> rat option \<Rightarrow> uniform_result" where
  "searchProducts_tool stringify encode client_get query lang pg per =
     (let options = \<lparr> page = Some (or_number pg 1), per_page = Some (or_number per 20) \<rparr> in
      case getProducts stringify encode client_get query options of
        Inr result \<Rightarrow>
          (case count_text stringify result of
             Some n \<Rightarrow> formatResult (''Found '' @ n @ '' products'') (Plain result) False
           | None \<Rightarrow> caught_message conversion_message)
      | Inl error \<Rightarrow> caught_message (message error))"

definition configureProduct_tool ::
  "(json \<Rightarrow> string) \<Rightarrow> (string \<Rightarrow> configure_payload \<Rightarrow> heap \<Rightarrow> http_error + json) \<Rightarrow>
   heap \<Rightarrow> string \<Rightarrow> nat option \<Rightarrow> address option \<Rightarrow> string option \<Rightarrow> uniform_result \<times> heap" where
  "configureProduct_tool stringify client_post h productCode options addr lang =
     (let (h0, opts) = (case options of None \<Rightarrow> array_new h [] | Some r \<Rightarrow> (h, r));
          (outcome, h') = configureProduct stringify client_post h0 productCode (Some opts) addr lang
      in (case outcome of
            Inr result \<Rightarrow>
              formatResult (''Product '' @ productCode @ '' configured successfully'') (Plain result) False
          | Inl error \<Rightarrow> caught_message (message error),
          h'))"

text \<open>
  \<open>`${result.order?.id || 'ID not available'}`\<close>: the text, or \<open>None\<close> when the
  conversion raises.
\<close>

definition order_id_text :: "(json \<Rightarrow> string) \<Rightarrow> json \<Rightarrow> string option" where
  "order_id_text stringify result =
     (case get_prop result ''order'' of
        None \<Rightarrow> Some ''ID not available''
      | Some ord \<Rightarrow>
          (case get_prop ord ''id'' of
             None \<Rightarrow> Some ''ID not available''
           | Some v \<Rightarrow> if truthy v then to_str stringify v else Some ''ID not available''))"

text \<open>
  The \<open>placeOrder\<close> handler passes the caught error object itself. A result \<open>null\<close>
  makes \<open>result.order\<close> raise inside the \<open>try\<close>, and the template literal may raise;
  the same \<open>catch\<close> receives that error, which has no \<open>data\<close> member.
\<close>

definition placeOrder_tool ::
  "(json \<Rightarrow> string) \<Rightarrow> (string \<Rightarrow> order_payload \<Rightarrow> http_error + json) \<Rightarrow> string \<Rightarrow> nat \<Rightarrow>
   configuration \<Rightarrow> address \<Rightarrow> string \<Rightarrow> bool option \<Rightarrow> additional_options option \<Rightarrow>
   uniform_result" where
  "placeOrder_tool stringify client_post mode now config addr ref isTest additionalOptions =
     (let caught = (\<lambda>error. formatResult (''Error: '' @ message error)
                                (ErrorData (ErrObject error) None) True) in
      case placeOrder stringify client_post mode now config addr ref isTest
             (Some (case additionalOptions of None \<Rightarrow> no_additional_options | Some x \<Rightarrow> x)) of
        Inr result \<Rightarrow>
          (if result = JNull
           then caught \<lparr> message = null_member_message ''order'', data = None \<rparr>
           else (case order_id_text stringify result of
                   None \<Rightarrow> caught \<lparr> message = conversion_message, data = None \<rparr>
                 | Some shown \<Rightarrow>
                     formatResult (''Order placed successfully: '' @ shown) (Plain result) False))
      | Inl error \<Rightarrow> caught error)"

section \<open>Inputs used in the examples\<close>

definition sample_address :: address where
  "sample_address =
     \<lparr> address_company_name = None,
       address_first_name = ''Ada'',
       address_last_name = ''Lovelace'',
       address_street = ''Kerkstraat'',
       address_house_number = ''12'',
       address_addition = None,
       address_postal_code = ''1011AB'',
       address_city = ''Amsterdam'',
       address_country = ''NL'',
       address_telephone_number = None,
       address_email = None \<rparr>"

definition bare_product :: order_product where
  "bare_product =
     \<lparr> prod_code = Some ''banner'', customer_code = None, prod_options = None, prod_files = None,
       prod_uploader = None, prod_uploaders = None \<rparr>"

text \<open>An upstream that answers every request with status 400 and a JSON body.\<close>

definition rejected :: http_error where
  "rejected =
     \<lparr> err_response = Some (400, JObj [(''message'', JStr ''Invalid product'')]),
       err_request = True,
       err_message = ''Request failed with status code 400'' \<rparr>"

text \<open>The input option list of a call: empty when the argument is omitted.\<close>

definition caller_options :: "heap \<Rightarrow> nat option \<Rightarrow> product_option list" where
  "caller_options h options = (case options of None \<Rightarrow> [] | Some r \<Rightarrow> h ! r)"

section \<open>Decimal numerals\<close>

lemma digit_char_inj:
  assumes "a < 10" "b < 10" "digit_char a = digit_char b"
  shows "a = b"
proof -
  have d: "distinct ''0123456789''" by simp
  have l: "length ''0123456789'' = 10" by simp
  from assms show ?thesis
    unfolding digit_char_def using nth_eq_iff_index_eq [OF d, of a b] l by simp
qed

lemma show_nat_nonempty: "show_nat n \<noteq> []"
  by (subst show_nat.simps) simp

lemma show_nat_small: "n < 10 \<Longrightarrow> show_nat n = [digit_char n]"
  by (subst show_nat.simps) simp

lemma show_nat_large: "\<not> n < 10 \<Longrightarrow> show_nat n = show_nat (n div 10) @ [digit_char (n mod 10)]"
  by (subst show_nat.simps) simp

lemma show_nat_inj: "show_nat a = show_nat b \<Longrightarrow> a = b"
proof (induction a arbitrary: b rule: show_nat.induct)
  case (1 n)
  show ?case
  proof (cases "n < 10")
    case small: True
    show ?thesis
    proof (cases "b < 10")
      case True
      with small "1.prems" show ?thesis
        by (simp add: show_nat_small digit_char_inj)
    next
      case False
      with small "1.prems" show ?thesis
        using show_nat_nonempty [of "b div 10"] by (simp add: show_nat_small show_nat_large)
    qed
  next
    case large: False
    show ?thesis
    proof (cases "b < 10")
      case True
      with large "1.prems" show ?thesis
        using show_nat_nonempty [of "n div 10"] by (simp add: show_nat_small show_nat_large)
    next
      case False
      with large "1.prems" have e: "show_nat (n div 10) = show_nat (b div 10)"
        and m: "digit_char (n mod 10) = digit_char (b mod 10)"
        by (simp_all add: show_nat_large)
      from "1.IH" [OF large e] have "n div 10 = b div 10" .
      moreover from m have "n mod 10 = b mod 10"
        by (intro digit_char_inj) simp_all
      ultimately show ?thesis by (metis div_mult_mod_eq)
    qed
  qed
qed

lemma show_nat_400: "show_nat 400 = ''400''"
  by (simp add: show_nat.simps digit_char_def)


section \<open>The error normaliser: validation errors\<close>

text \<open>The \<open>Set\<close> built by insertion keeps exactly the first occurrences.\<close>

lemma foldl_set_insert:
  "foldl set_insert acc xs = acc @ dedup_first (filter (\<lambda>y. y \<notin> set acc) xs)"
proof (induction xs arbitrary: acc)
  case Nil
  show ?case by simp
next
  case (Cons x xs)
  show ?case
  proof (cases "x \<in> set acc")
    case True
    then have "set_insert acc x = acc" by (simp add: set_insert_def)
    with True show ?thesis by (simp add: Cons.IH)
  next
    case False
    have "filter (\<lambda>y. y \<noteq> x) (filter (\<lambda>y. y \<notin> set acc) xs) = filter (\<lambda>y. y \<notin> set (acc @ [x])) xs"
      by (auto intro: filter_cong)
    moreover from False have "set_insert acc x = acc @ [x]" by (simp add: set_insert_def)
    ultimately show ?thesis using False by (simp add: Cons.IH)
  qed
qed

lemma unique_in_order_dedup: "unique_in_order xs = dedup_first xs"
  by (simp add: unique_in_order_def foldl_set_insert)

lemma listing_spec: "entry_lines (take 10 es) @ more_errors (length es) = spec_error_listing es"
proof (cases "drop 10 es")
  case Nil
  then show ?thesis by (simp add: entry_lines_def more_errors_def spec_error_listing_def)
next
  case (Cons r rest)
  then have "length (r # rest) = length es - 10" by (metis length_drop)
  moreover from Cons have "length es > 10" by (cases "length es > 10") auto
  ultimately show ?thesis using Cons
    by (simp add: entry_lines_def more_errors_def spec_error_listing_def)
qed

lemma those_length: "those ys = Some zs \<Longrightarrow> length zs = length ys"
  by (induction ys arbitrary: zs) (auto split: option.splits)

lemma those_take: "those ys = Some zs \<Longrightarrow> those (take n ys) = Some (take n zs)"
proof (induction ys arbitrary: zs n)
  case Nil
  then show ?case by simp
next
  case (Cons y ys)
  then show ?case by (cases n) (auto split: option.splits)
qed

lemma validation_errors_spec:
  assumes "spec_error_entries stringify e = Some entries"
  shows "validation_errors stringify e = Some (spec_error_listing entries)"
proof (cases e)
  case (JStr s)
  with assms show ?thesis
    by (auto simp: validation_errors_def spec_error_entries_def Let_def unique_in_order_dedup listing_spec)
next
  case (JArr xs)
  with assms have t: "those (map (to_str stringify) xs) = Some entries"
    by (simp add: spec_error_entries_def)
  from those_take [OF t, of 10] have "those (map (to_str stringify) (take 10 xs)) = Some (take 10 entries)"
    by (simp add: take_map)
  moreover from those_length [OF t] have "length entries = length xs" by simp
  ultimately show ?thesis using JArr
    by (simp add: validation_errors_def) (metis listing_spec)
qed (use assms in \<open>auto simp: validation_errors_def spec_error_entries_def spec_error_listing_def\<close>)

text \<open>
  C2, as the code has it. The validation block is guarded by \<open>data.errors\<close> being
  truthy. For a response with status 400 whose body has a truthy \<open>errors\<close> member (a
  non-empty string, or any list), and whose message and list entries convert to text
  (strings always do), the message is the prefix, the status, the body detail, a line
  \<open>Validation errors:\<close> and then the listing of the specification: the de-duplicated
  pieces of a string or the entries of a list, the first ten of them, and the count of
  the remainder when there are more.
\<close>

theorem handleApiError_validation_errors:
  assumes "err_response error = Some (400, d)"
    and "get_prop d ''errors'' = Some e"
    and "truthy e"
    and "body_detail stringify d = Some detail"
    and "spec_error_entries stringify e = Some entries"
  shows "(handleApiError stringify error prefix :: js_error + 'a) =
     Inl \<lparr> message = (if prefix = [] then ''API request failed'' else prefix) @ '': HTTP 400'' @
                      detail @ nl # ''Validation errors:'' @ spec_error_listing entries,
           data = Some d \<rparr>"
proof -
  from assms(2) have "truthy d" by (cases d) simp_all
  with assms show ?thesis
    by (simp add: handleApiError_def response_message_def truthy_prop_def
        validation_errors_spec [OF assms(5)] show_nat_400)
qed

text \<open>
  The two examples of the claim: \<open>a\na\nb\<close> lists \<open>a\<close> and \<open>b\<close>; twelve strings list
  the first ten and \<open>... and 2 more errors\<close>.
\<close>

theorem handleApiError_validation_errors_witness:
  "(handleApiError (\<lambda>j. ''{}'')
      \<lparr> err_response = Some (400, JObj [(''errors'', JStr (''a'' @ nl # ''a'' @ nl # ''b''))]),
        err_request = True, err_message = ''Request failed with status code 400'' \<rparr>
      ''Failed to place order'' :: js_error + json) =
   Inl \<lparr> message = ''Failed to place order: HTTP 400 - {}'' @ nl # ''Validation errors:'' @
                    nl # ''- a'' @ nl # ''- b'',
         data = Some (JObj [(''errors'', JStr (''a'' @ nl # ''a'' @ nl # ''b''))]) \<rparr>
   \<and>
   (handleApiError (\<lambda>j. ''{}'')
      \<lparr> err_response = Some (400, JObj [(''message'', JStr ''Invalid order''),
          (''errors'', JArr [JStr ''e1'', JStr ''e2'', JStr ''e3'', JStr ''e4'', JStr ''e5'', JStr ''e6'',
                             JStr ''e7'', JStr ''e8'', JStr ''e9'', JStr ''e10'', JStr ''e11'', JStr ''e12''])]),
        err_request = True, err_message = ''Request failed with status code 400'' \<rparr>
      ''Failed to place order'' :: js_error + json) =
   Inl \<lparr> message = ''Failed to place order: HTTP 400 - Invalid order'' @ nl # ''Validation errors:'' @
                    nl # ''- e1'' @ nl # ''- e2'' @ nl # ''- e3'' @ nl # ''- e4'' @ nl # ''- e5'' @
                    nl # ''- e6'' @ nl # ''- e7'' @ nl # ''- e8'' @ nl # ''- e9'' @ nl # ''- e10'' @
                    nl # ''... and 2 more errors'',
         data = Some (JObj [(''message'', JStr ''Invalid order''),
          (''errors'', JArr [JStr ''e1'', JStr ''e2'', JStr ''e3'', JStr ''e4'', JStr ''e5'', JStr ''e6'',
                             JStr ''e7'', JStr ''e8'', JStr ''e9'', JStr ''e10'', JStr ''e11'', JStr ''e12''])]) \<rparr>"
proof -
  let ?s1 = "''a'' @ nl # ''a'' @ nl # ''b''"
  let ?d1 = "JObj [(''errors'', JStr ?s1)]"
  let ?e2 = "JArr [JStr ''e1'', JStr ''e2'', JStr ''e3'', JStr ''e4'', JStr ''e5'', JStr ''e6'',
                   JStr ''e7'', JStr ''e8'', JStr ''e9'', JStr ''e10'', JStr ''e11'', JStr ''e12'']"
  let ?d2 = "JObj [(''message'', JStr ''Invalid order''), (''errors'', ?e2)]"
  let ?err = "\<lambda>d. \<lparr> err_response = Some (400, d), err_request = True,
                     err_message = ''Request failed with status code 400'' \<rparr>"
  let ?sf = "\<lambda>j :: json. ''{}''"
  have a1: "err_response (?err ?d1) = Some (400, ?d1)" by simp
  have a2: "get_prop ?d1 ''errors'' = Some (JStr ?s1)" by simp
  have a3: "truthy (JStr ?s1)" by simp
  have a4: "body_detail ?sf ?d1 = Some '' - {}''"
    by (simp add: body_detail_def truthy_prop_def)
  have a5: "spec_error_entries ?sf (JStr ?s1) = Some [''a'', ''b'']"
    by (simp add: spec_error_entries_def)
  have b1: "err_response (?err ?d2) = Some (400, ?d2)" by simp
  have b2: "get_prop ?d2 ''errors'' = Some ?e2" by simp
  have b3: "truthy ?e2" by simp
  have b4: "body_detail ?sf ?d2 = Some '' - Invalid order''"
    by (simp add: body_detail_def truthy_prop_def)
  have b5: "spec_error_entries ?sf ?e2 =
      Some [''e1'', ''e2'', ''e3'', ''e4'', ''e5'', ''e6'', ''e7'', ''e8'', ''e9'', ''e10'', ''e11'', ''e12'']"
    by (simp add: spec_error_entries_def)
  have n2: "show_nat (Suc (Suc 0)) = ''2''" by (simp add: show_nat.simps digit_char_def)
  show ?thesis
    using handleApiError_validation_errors [OF a1 a2 a3 a4 a5, of "''Failed to place order''"]
      handleApiError_validation_errors [OF b1 b2 b3 b4 b5, of "''Failed to place order''"]
    by (simp add: spec_error_listing_def n2)
qed

text \<open>
  C2 as stated fails where the \<open>errors\<close> member is present but falsy. For the body
  \<open>{message: "bad", errors: ""}\<close> splitting and de-duplicating gives one (empty)
  entry, yet the message lists nothing.
\<close>

theorem handleApiError_empty_errors_counterexample:
  "get_prop (JObj [(''message'', JStr ''bad''), (''errors'', JStr [])]) ''errors'' = Some (JStr [])
   \<and> spec_error_entries (\<lambda>j. ''{}'') (JStr []) = Some [[]]
   \<and> (handleApiError (\<lambda>j. ''{}'')
        \<lparr> err_response = Some (400, JObj [(''message'', JStr ''bad''), (''errors'', JStr [])]),
          err_request = True, err_message = ''Request failed with status code 400'' \<rparr>
        ''Failed to place order'' :: js_error + json) =
      Inl \<lparr> message = ''Failed to place order: HTTP 400 - bad'',
            data = Some (JObj [(''message'', JStr ''bad''), (''errors'', JStr [])]) \<rparr>"
  by (simp add: spec_error_entries_def handleApiError_def response_message_def body_detail_def
      truthy_prop_def show_nat_400)

section \<open>The error normaliser: how it ends\<close>

text \<open>A printable value converts, and so do its members and elements.\<close>

lemma those_map_Some:
  "(\<And>x. x \<in> set xs \<Longrightarrow> \<exists>t. f x = Some t) \<Longrightarrow> \<exists>ts. those (map f xs) = Some ts"
  by (induction xs) (auto split: option.splits)

lemma printable_to_str: "printable v \<Longrightarrow> \<exists>t. to_str stringify v = Some t"
proof (induction v)
  case (JArr xs)
  have "\<exists>ts. those (map (\<lambda>x. if x = JNull then Some [] else to_str stringify x) xs) = Some ts"
  proof (rule those_map_Some)
    fix x assume "x \<in> set xs"
    with JArr show "\<exists>t. (if x = JNull then Some [] else to_str stringify x) = Some t"
      by (auto simp: list_all_iff)
  qed
  then show ?case by auto
qed simp_all

lemma printable_member:
  "printable d \<Longrightarrow> get_prop d k = Some v \<Longrightarrow> printable v"
  by (cases d) (auto simp: list_all_iff dest!: map_of_SomeD)

lemma printable_body_detail: "printable d \<Longrightarrow> \<exists>t. body_detail stringify d = Some ('' - '' @ t)"
proof (cases "get_prop d ''message''")
  case None
  then show ?thesis by (auto simp: body_detail_def truthy_prop_def split: json.splits)
next
  case (Some m)
  assume "printable d"
  with Some have "printable m" by (rule printable_member [rotated])
  from printable_to_str [OF this] obtain t where "to_str stringify m = Some t" by blast
  with Some show ?thesis by (auto simp: body_detail_def truthy_prop_def split: json.splits)
qed

lemma printable_validation_errors:
  assumes "printable e"
  shows "\<exists>t. validation_errors stringify e = Some t"
proof (cases e)
  case (JArr xs)
  have "\<exists>ts. those (map (to_str stringify) (take 10 xs)) = Some ts"
  proof (rule those_map_Some)
    fix x assume "x \<in> set (take 10 xs)"
    then have "x \<in> set xs" by (rule in_set_takeD)
    with assms JArr have "printable x" by (simp add: list_all_iff)
    then show "\<exists>t. to_str stringify x = Some t" by (rule printable_to_str)
  qed
  with JArr show ?thesis by (auto simp: validation_errors_def)
qed (simp_all add: validation_errors_def Let_def)

lemma printable_response_message:
  assumes "printable d"
  shows "\<exists>rest. response_message stringify em status d = Some (em @ '': '' @ rest)"
proof -
  from printable_body_detail [OF assms] obtain t where
    b: "body_detail stringify d = Some ('' - '' @ t)" by blast
  show ?thesis
  proof (cases "get_prop d ''errors''")
    case None
    with b show ?thesis by (auto simp: response_message_def truthy_prop_def)
  next
    case (Some e)
    with assms have "printable e" by (rule printable_member)
    from printable_validation_errors [OF this] obtain l where
      "validation_errors stringify e = Some l" by blast
    with b Some show ?thesis by (auto simp: response_message_def truthy_prop_def)
  qed
qed

lemma handleApiError_raises: "\<exists>e. (handleApiError stringify error prefix :: js_error + 'a) = Inl e"
  by (cases "err_response error")
     (auto simp: handleApiError_def Let_def split: option.splits)

lemma handleApiError_not_Inr: "handleApiError stringify error prefix \<noteq> Inr v"
  by (cases "err_response error")
     (auto simp: handleApiError_def Let_def split: option.splits)

text \<open>
  C3, as the code has it. The normaliser never returns normally: on every input it
  ends by raising. When no object of the response body has a member named \<open>toString\<close>
  (and whenever there is no response), what it raises is the normalised error: the
  prefix, a colon and the detail, with the response body as data, or \<open>null\<close> without a
  response. Each of the six operations whose transport fails fails with exactly what
  the normaliser raises.
\<close>

theorem handleApiError_always_throws:
  "(\<exists>e. (handleApiError stringify error prefix :: js_error + 'a) = Inl e)
   \<and> ((case err_response error of None \<Rightarrow> True | Some (status, d) \<Rightarrow> printable d) \<longrightarrow>
        (\<exists>rest. (handleApiError stringify error prefix :: js_error + 'a) =
           Inl \<lparr> message = (if prefix = [] then ''API request failed'' else prefix) @ '': '' @ rest,
                 data = Some (case err_response error of Some (status, d) \<Rightarrow> d | None \<Rightarrow> JNull) \<rparr>))
   \<and> (client_get (products_url encode stringify (case query of None \<Rightarrow> [] | Some q \<Rightarrow> q) options) = Inl error \<longrightarrow>
        getProducts stringify encode client_get query options =
        handleApiError stringify error ''Failed to fetch products'')
   \<and> (configure_post ''/products/configure''
          (fst (configureProduct_payload h productCode opts addr lang))
          (snd (configureProduct_payload h productCode opts addr lang)) = Inl error \<longrightarrow>
        fst (configureProduct stringify configure_post h productCode opts addr lang) =
        handleApiError stringify error ''Failed to configure product'')
   \<and> (order_post ''/order'' (orderPayload mode now config oaddr ref isTest additionalOptions) = Inl error \<longrightarrow>
        placeOrder stringify order_post mode now config oaddr ref isTest additionalOptions =
        handleApiError stringify error ''Failed to place order'')
   \<and> (status_post ''/order/status'' (orderStatus_payload orderIds) = Inl error \<longrightarrow>
        getOrderStatus stringify status_post orderIds =
        handleApiError stringify error ''Failed to get order status'')
   \<and> (orders_get (orders_url serialize stringify (case filters of None \<Rightarrow> [] | Some f \<Rightarrow> f)) = Inl error \<longrightarrow>
        getAllOrders stringify serialize orders_get filters =
        handleApiError stringify error ''Failed to get orders'')
   \<and> (cancel_post ''/order/cancel'' (cancel_payload cancelId) = Inl error \<longrightarrow>
        cancelOrder stringify cancel_post cancelId =
        handleApiError stringify error ''Failed to cancel order'')"
proof (intro conjI impI)
  show "\<exists>e. (handleApiError stringify error prefix :: js_error + 'a) = Inl e"
    by (rule handleApiError_raises)
next
  assume p: "case err_response error of None \<Rightarrow> True | Some (status, d) \<Rightarrow> printable d"
  show "\<exists>rest. (handleApiError stringify error prefix :: js_error + 'a) =
           Inl \<lparr> message = (if prefix = [] then ''API request failed'' else prefix) @ '': '' @ rest,
                 data = Some (case err_response error of Some (status, d) \<Rightarrow> d | None \<Rightarrow> JNull) \<rparr>"
  proof (cases "err_response error")
    case None
    then show ?thesis by (auto simp: handleApiError_def)
  next
    case (Some sd)
    obtain status d where sd: "sd = (status, d)" by (cases sd)
    with p Some have "printable d" by simp
    from printable_response_message [OF this, of stringify
        "if prefix = [] then ''API request failed'' else prefix" status]
    show ?thesis using Some sd by (auto simp: handleApiError_def Let_def)
  qed
next
  assume "client_get (products_url encode stringify (case query of None \<Rightarrow> [] | Some q \<Rightarrow> q) options) = Inl error"
  then show "getProducts stringify encode client_get query options =
        handleApiError stringify error ''Failed to fetch products''"
    by (simp add: getProducts_def)
next
  assume "configure_post ''/products/configure''
          (fst (configureProduct_payload h productCode opts addr lang))
          (snd (configureProduct_payload h productCode opts addr lang)) = Inl error"
  then show "fst (configureProduct stringify configure_post h productCode opts addr lang) =
        handleApiError stringify error ''Failed to configure product''"
    by (cases "configureProduct_payload h productCode opts addr lang")
       (simp add: configureProduct_def)
next
  assume "order_post ''/order'' (orderPayload mode now config oaddr ref isTest additionalOptions) = Inl error"
  then show "placeOrder stringify order_post mode now config oaddr ref isTest additionalOptions =
        handleApiError stringify error ''Failed to place order''"
    by (simp add: placeOrder_def)
next
  assume "status_post ''/order/status'' (orderStatus_payload orderIds) = Inl error"
  then show "getOrderStatus stringify status_post orderIds =
        handleApiError stringify error ''Failed to get order status''"
    by (simp add: getOrderStatus_def)
next
  assume "orders_get (orders_url serialize stringify (case filters of None \<Rightarrow> [] | Some f \<Rightarrow> f)) = Inl error"
  then show "getAllOrders stringify serialize orders_get filters =
        handleApiError stringify error ''Failed to get orders''"
    by (simp add: getAllOrders_def)
next
  assume "cancel_post ''/order/cancel'' (cancel_payload cancelId) = Inl error"
  then show "cancelOrder stringify cancel_post cancelId =
        handleApiError stringify error ''Failed to cancel order''"
    by (simp add: cancelOrder_def)
qed

text \<open>
  An upstream that answers 400 with the body \<open>{message: "Invalid product"}\<close>, which is
  printable: each of the six operations fails with the normalised error, whose data is
  the body.
\<close>

theorem handleApiError_always_throws_witness:
  "getProducts (\<lambda>j. ''{}'') (\<lambda>q. q) (\<lambda>url. Inl rejected) None \<lparr> page = None, per_page = None \<rparr> =
     Inl \<lparr> message = ''Failed to fetch products: HTTP 400 - Invalid product'',
           data = Some (JObj [(''message'', JStr ''Invalid product'')]) \<rparr>
   \<and> fst (configureProduct (\<lambda>j. ''{}'') (\<lambda>url p st. Inl rejected) [] ''banner'' None None None) =
     Inl \<lparr> message = ''Failed to configure product: HTTP 400 - Invalid product'',
           data = Some (JObj [(''message'', JStr ''Invalid product'')]) \<rparr>
   \<and> placeOrder (\<lambda>j. ''{}'') (\<lambda>url p. Inl rejected) ''test'' 1745765551460
       \<lparr> conf_products = Some [bare_product], conf_language = None \<rparr> sample_address ''ref-1'' None None =
     Inl \<lparr> message = ''Failed to place order: HTTP 400 - Invalid product'',
           data = Some (JObj [(''message'', JStr ''Invalid product'')]) \<rparr>
   \<and> getOrderStatus (\<lambda>j. ''{}'') (\<lambda>url p. Inl rejected) [''order-1''] =
     Inl \<lparr> message = ''Failed to get order status: HTTP 400 - Invalid product'',
           data = Some (JObj [(''message'', JStr ''Invalid product'')]) \<rparr>
   \<and> getAllOrders (\<lambda>j. ''{}'') (\<lambda>pairs. []) (\<lambda>url. Inl rejected) None =
     Inl \<lparr> message = ''Failed to get orders: HTTP 400 - Invalid product'',
           data = Some (JObj [(''message'', JStr ''Invalid product'')]) \<rparr>
   \<and> cancelOrder (\<lambda>j. ''{}'') (\<lambda>url p. Inl rejected) ''order-1'' =
     Inl \<lparr> message = ''Failed to cancel order: HTTP 400 - Invalid product'',
           data = Some (JObj [(''message'', JStr ''Invalid product'')]) \<rparr>
   \<and> (\<exists>rest. (handleApiError (\<lambda>j. ''{}'') rejected ''Failed to place order'' :: js_error + json) =
          Inl \<lparr> message = ''Failed to place order: '' @ rest,
                data = Some (JObj [(''message'', JStr ''Invalid product'')]) \<rparr>)"
proof -
  let ?jpost = "\<lambda>(url :: string) (p :: json). (Inl rejected :: http_error + json)"
  let ?ser = "\<lambda>pairs :: (string \<times> string) list. ([] :: string)"
  let ?sf = "\<lambda>j :: json. ''{}''"
  let ?get = "\<lambda>url :: string. (Inl rejected :: http_error + json)"
  let ?cpost = "\<lambda>(url :: string) (p :: configure_payload) (st :: heap). (Inl rejected :: http_error + json)"
  let ?opost = "\<lambda>(url :: string) (p :: order_payload). (Inl rejected :: http_error + json)"
  let ?config = "\<lparr> conf_products = Some [bare_product], conf_language = None \<rparr>"
  have p: "case err_response rejected of None \<Rightarrow> True | Some (status, d) \<Rightarrow> printable d"
    by (simp add: rejected_def)
  have e: "(handleApiError ?sf rejected prefix :: js_error + json) =
      Inl \<lparr> message = (if prefix = [] then ''API request failed'' else prefix) @ '': HTTP 400 - Invalid product'',
            data = Some (JObj [(''message'', JStr ''Invalid product'')]) \<rparr>" for prefix
    by (simp add: handleApiError_def response_message_def body_detail_def truthy_prop_def
        rejected_def show_nat_400)
  note t = handleApiError_always_throws [where ?'a = json and stringify = ?sf and error = rejected
      and prefix = "''Failed to place order''" and client_get = ?get and encode = "\<lambda>q. q"
      and query = None and options = "\<lparr> page = None, per_page = None \<rparr>"
      and configure_post = ?cpost and h = "[]" and productCode = "''banner''" and opts = None
      and addr = None and lang = None
      and order_post = ?opost and mode = "''test''" and now = 1745765551460 and config = ?config
      and oaddr = sample_address and ref = "''ref-1''" and isTest = None and additionalOptions = None
      and status_post = ?jpost and orderIds = "[''order-1'']" and orders_get = ?get
      and serialize = ?ser and filters = None and cancel_post = ?jpost and cancelId = "''order-1''"]
  have x: "\<exists>rest. (handleApiError ?sf rejected ''Failed to place order'' :: js_error + json) =
          Inl \<lparr> message = ''Failed to place order: '' @ rest,
                data = Some (JObj [(''message'', JStr ''Invalid product'')]) \<rparr>"
    using e [of "''Failed to place order''"] by simp
  from t p have c: "getProducts ?sf (\<lambda>q. q) ?get None \<lparr> page = None, per_page = None \<rparr> =
        handleApiError ?sf rejected ''Failed to fetch products''
      \<and> fst (configureProduct ?sf ?cpost [] ''banner'' None None None) =
        handleApiError ?sf rejected ''Failed to configure product''
      \<and> placeOrder ?sf ?opost ''test'' 1745765551460 ?config sample_address ''ref-1'' None None =
        handleApiError ?sf rejected ''Failed to place order''
      \<and> getOrderStatus ?sf ?jpost [''order-1''] =
        handleApiError ?sf rejected ''Failed to get order status''
      \<and> getAllOrders ?sf ?ser ?get None = handleApiError ?sf rejected ''Failed to get orders''
      \<and> cancelOrder ?sf ?jpost ''order-1'' = handleApiError ?sf rejected ''Failed to cancel order''"
    by simp
  from c x show ?thesis by (simp add: e)
qed

text \<open>
  C3 as stated says the normaliser returns its value and the caller raises it. For a
  request that got no response, the call ends by raising.
\<close>

theorem handleApiError_returns_counterexample:
  "(handleApiError (\<lambda>j. ''{}'')
      \<lparr> err_response = None, err_request = True, err_message = ''timeout of 0ms exceeded'' \<rparr>
      ''Failed to fetch products'' :: js_error + json) =
   Inl \<lparr> message = ''Failed to fetch products: No response received'', data = Some JNull \<rparr>"
  by (simp add: handleApiError_def)

section \<open>\<open>configureProduct\<close>: default dimensions and the caller's array\<close>

lemma payload_options_eq:
  assumes "case options of None \<Rightarrow> True | Some r \<Rightarrow> r < length h"
  shows "payload_options (configureProduct_payload h pc options addr lang) =
     caller_options h options @
     (if list_ex (\<lambda>opt. opt_code opt = ''width'' \<or> opt_code opt = ''width_mm'') (caller_options h options)
      then [] else [\<lparr> opt_code = ''width'', opt_value = JNum 1000 \<rparr>]) @
     (if list_ex (\<lambda>opt. opt_code opt = ''height'' \<or> opt_code opt = ''height_mm'') (caller_options h options)
      then [] else [\<lparr> opt_code = ''height'', opt_value = JNum 1000 \<rparr>])"
  using assms
  by (cases options)
     (auto simp: payload_options_def configureProduct_payload_def array_new_def array_push_def
        caller_options_def Let_def nth_append list_ex_iff)

lemma configureProduct_payload_heap:
  "take (length h) (snd (configureProduct_payload h pc options addr lang)) = h"
  by (cases options)
     (auto simp: configureProduct_payload_def array_new_def array_push_def Let_def)

lemma configureProduct_payload_ref:
  "map cp_options (cfg_products (fst (configureProduct_payload h pc (Some r) addr lang))) = [length h]"
  by (simp add: configureProduct_payload_def array_new_def Let_def)

lemma configureProduct_heap:
  "snd (configureProduct stringify client_post h pc options addr lang) =
   snd (configureProduct_payload h pc options addr lang)"
  by (simp add: configureProduct_def split: prod.splits)

text \<open>
  C1. When the caller's list has no option coded \<open>width\<close> or \<open>width_mm\<close>, the
  options of the built payload hold exactly one option coded \<open>width\<close>, with value
  1000; likewise for \<open>height\<close> and \<open>height_mm\<close>. When the caller's list has an
  option coded \<open>width_mm\<close> (or \<open>height_mm\<close>), the payload's \<open>width\<close> (or
  \<open>height\<close>) options are the caller's own: none is added.
\<close>

theorem configureProduct_default_dimensions:
  assumes "case options of None \<Rightarrow> True | Some r \<Rightarrow> r < length h"
  shows "(\<not> list_ex (\<lambda>opt. opt_code opt = ''width'' \<or> opt_code opt = ''width_mm'') (caller_options h options) \<longrightarrow>
          filter (\<lambda>opt. opt_code opt = ''width'')
            (payload_options (configureProduct_payload h pc options addr lang)) =
          [\<lparr> opt_code = ''width'', opt_value = JNum 1000 \<rparr>])
       \<and> (\<not> list_ex (\<lambda>opt. opt_code opt = ''height'' \<or> opt_code opt = ''height_mm'') (caller_options h options) \<longrightarrow>
          filter (\<lambda>opt. opt_code opt = ''height'')
            (payload_options (configureProduct_payload h pc options addr lang)) =
          [\<lparr> opt_code = ''height'', opt_value = JNum 1000 \<rparr>])
       \<and> (list_ex (\<lambda>opt. opt_code opt = ''width_mm'') (caller_options h options) \<longrightarrow>
          filter (\<lambda>opt. opt_code opt = ''width'')
            (payload_options (configureProduct_payload h pc options addr lang)) =
          filter (\<lambda>opt. opt_code opt = ''width'') (caller_options h options))
       \<and> (list_ex (\<lambda>opt. opt_code opt = ''height_mm'') (caller_options h options) \<longrightarrow>
          filter (\<lambda>opt. opt_code opt = ''height'')
            (payload_options (configureProduct_payload h pc options addr lang)) =
          filter (\<lambda>opt. opt_code opt = ''height'') (caller_options h options))"
  unfolding payload_options_eq [OF assms]
  by (auto simp: list_ex_iff filter_empty_conv)

text \<open>
  An empty list gets both defaults; a list with \<open>width_mm\<close> and \<open>height_mm\<close> gets
  neither.
\<close>

theorem configureProduct_default_dimensions_witness:
  "filter (\<lambda>opt. opt_code opt = ''width'')
     (payload_options (configureProduct_payload [[]] ''banner'' (Some 0) None None)) =
   [\<lparr> opt_code = ''width'', opt_value = JNum 1000 \<rparr>]
   \<and> filter (\<lambda>opt. opt_code opt = ''height'')
     (payload_options (configureProduct_payload [[]] ''banner'' (Some 0) None None)) =
   [\<lparr> opt_code = ''height'', opt_value = JNum 1000 \<rparr>]
   \<and> filter (\<lambda>opt. opt_code opt = ''width'')
     (payload_options (configureProduct_payload
        [[\<lparr> opt_code = ''width_mm'', opt_value = JNum 500 \<rparr>, \<lparr> opt_code = ''height_mm'', opt_value = JNum 700 \<rparr>]]
        ''banner'' (Some 0) None None)) = []
   \<and> filter (\<lambda>opt. opt_code opt = ''height'')
     (payload_options (configureProduct_payload
        [[\<lparr> opt_code = ''width_mm'', opt_value = JNum 500 \<rparr>, \<lparr> opt_code = ''height_mm'', opt_value = JNum 700 \<rparr>]]
        ''banner'' (Some 0) None None)) = []"
proof -
  have a: "case Some (0::nat) of None \<Rightarrow> True | Some r \<Rightarrow> r < length [[] :: product_option list]"
    by simp
  have b: "case Some (0::nat) of None \<Rightarrow> True | Some r \<Rightarrow> r < length
      [[\<lparr> opt_code = ''width_mm'', opt_value = JNum 500 \<rparr>, \<lparr> opt_code = ''height_mm'', opt_value = JNum 700 \<rparr>]]"
    by simp
  show ?thesis
    using configureProduct_default_dimensions [OF a, of "''banner''" None None]
      configureProduct_default_dimensions [OF b, of "''banner''" None None]
    by (simp add: caller_options_def)
qed

text \<open>
  C10. After the call the caller's array holds what it held before, as does every
  array that existed before the call; the payload refers to a new array.
\<close>

theorem configureProduct_keeps_caller_options:
  assumes "r < length h"
  shows "snd (configureProduct stringify client_post h pc (Some r) addr lang) ! r = h ! r
       \<and> take (length h) (snd (configureProduct stringify client_post h pc (Some r) addr lang)) = h
       \<and> map cp_options (cfg_products (fst (configureProduct_payload h pc (Some r) addr lang))) = [length h]"
proof -
  let ?h' = "snd (configureProduct stringify client_post h pc (Some r) addr lang)"
  have t: "take (length h) ?h' = h"
    by (simp add: configureProduct_heap configureProduct_payload_heap)
  from assms have "take (length h) ?h' ! r = ?h' ! r" by simp
  with t have "?h' ! r = h ! r" by simp
  with t show ?thesis by (simp add: configureProduct_payload_ref)
qed

text \<open>
  A caller's list with \<open>width_mm\<close> only: the default \<open>height\<close> lands in the new
  array, and the caller's array still has its one option.
\<close>

theorem configureProduct_keeps_caller_options_witness:
  "(0::nat) < length [[\<lparr> opt_code = ''width_mm'', opt_value = JNum 500 \<rparr>]]
   \<and> snd (configureProduct (\<lambda>j. ''{}'') (\<lambda>url p st. Inr (JObj []))
        [[\<lparr> opt_code = ''width_mm'', opt_value = JNum 500 \<rparr>]] ''banner'' (Some 0) None None) ! 0 =
     [\<lparr> opt_code = ''width_mm'', opt_value = JNum 500 \<rparr>]
   \<and> snd (configureProduct (\<lambda>j. ''{}'') (\<lambda>url p st. Inr (JObj []))
        [[\<lparr> opt_code = ''width_mm'', opt_value = JNum 500 \<rparr>]] ''banner'' (Some 0) None None) ! 1 =
     [\<lparr> opt_code = ''width_mm'', opt_value = JNum 500 \<rparr>, \<lparr> opt_code = ''height'', opt_value = JNum 1000 \<rparr>]"
proof -
  have a: "(0::nat) < length [[\<lparr> opt_code = ''width_mm'', opt_value = JNum 500 \<rparr>]]" by simp
  have c: "snd (configureProduct (\<lambda>j. ''{}'') (\<lambda>url p st. Inr (JObj []))
        [[\<lparr> opt_code = ''width_mm'', opt_value = JNum 500 \<rparr>]] ''banner'' (Some 0) None None) ! 1 =
     [\<lparr> opt_code = ''width_mm'', opt_value = JNum 500 \<rparr>, \<lparr> opt_code = ''height'', opt_value = JNum 1000 \<rparr>]"
    by (simp add: configureProduct_def configureProduct_payload_def array_new_def array_push_def)
  show ?thesis
    using configureProduct_keeps_caller_options [OF a, of "\<lambda>j. ''{}''" "\<lambda>url p st. Inr (JObj [])" "''banner''" None None] c
    by simp
qed


section \<open>\<open>placeOrder\<close>: the built payload\<close>

lemma orderPayload_products:
  "products (orderPayload mode now config addr ref isTest ao) =
   map formattedProduct (case conf_products config of None \<Rightarrow> [] | Some ps \<Rightarrow> ps)"
  by (simp add: orderPayload_def Let_def)

text \<open>
  C5. A product without files gets the single placeholder file (a \<open>uri\<close> and a
  \<open>fill\<close> flag) exactly when it has no options either (\<open>options\<close> missing or
  empty); with at least one option, the built product has no \<open>files\<close> member.
\<close>

theorem placeOrder_placeholder_file:
  assumes "conf_products config = Some ps"
    and "i < length ps"
    and "\<not> has_items (prod_files (ps ! i))"
  shows "fp_files (products (orderPayload mode now config addr ref isTest ao) ! i) =
     (if has_items (prod_options (ps ! i)) then None else Some [placeholder_file])"
  using assms by (simp add: orderPayload_products formattedProduct_def)

text \<open>
  Two products without files: the first has no options and gets the placeholder, the
  second has one option and gets no \<open>files\<close> member.
\<close>

theorem placeOrder_placeholder_file_witness:
  "fp_files (products (orderPayload ''test'' 1745765551460
       \<lparr> conf_products = Some [bare_product, bare_product \<lparr> prod_options := Some [JObj [(''code'', JStr ''width''), (''value'', JNum 2000)]] \<rparr>],
         conf_language = None \<rparr>
       sample_address ''ref-1'' (Some True) None) ! 0) =
   Some [JObj [(''uri'', JStr ''https://placekitten.com/800/600''), (''fill'', JBool True)]]
   \<and>
   fp_files (products (orderPayload ''test'' 1745765551460
       \<lparr> conf_products = Some [bare_product, bare_product \<lparr> prod_options := Some [JObj [(''code'', JStr ''width''), (''value'', JNum 2000)]] \<rparr>],
         conf_language = None \<rparr>
       sample_address ''ref-1'' (Some True) None) ! 1) = None"
proof -
  let ?ps = "[bare_product, bare_product \<lparr> prod_options := Some [JObj [(''code'', JStr ''width''), (''value'', JNum 2000)]] \<rparr>]"
  let ?config = "\<lparr> conf_products = Some ?ps, conf_language = None \<rparr>"
  have c: "conf_products ?config = Some ?ps" by simp
  have i0: "(0::nat) < length ?ps" and i1: "(1::nat) < length ?ps" by simp_all
  have f0: "\<not> has_items (prod_files (?ps ! 0))" and f1: "\<not> has_items (prod_files (?ps ! 1))"
    by (simp_all add: has_items_def bare_product_def)
  show ?thesis
    using placeOrder_placeholder_file [OF c i0 f0, of "''test''" 1745765551460 sample_address "''ref-1''" "Some True" None]
      placeOrder_placeholder_file [OF c i1 f1, of "''test''" 1745765551460 sample_address "''ref-1''" "Some True" None]
    by (simp add: has_items_def bare_product_def placeholder_file_def)
qed

text \<open>
  C6, as the code has it. The two members are spread into the payload only when the
  caller's value is truthy: a non-empty string becomes a one-element list, a list (even
  an empty one) is passed through, and a missing value or the empty string leaves the
  member out.
\<close>

theorem placeOrder_callback_lists:
  "callback_url (orderPayload mode now config addr ref isTest (Some ao)) =
     (case callbackUrl ao of
        None \<Rightarrow> None
      | Some (Single s) \<Rightarrow> if s = [] then None else Some [s]
      | Some (Multiple xs) \<Rightarrow> Some xs)
   \<and> error_email_addresses (orderPayload mode now config addr ref isTest (Some ao)) =
     (case errorEmails ao of
        None \<Rightarrow> None
      | Some (Single s) \<Rightarrow> if s = [] then None else Some [s]
      | Some (Multiple xs) \<Rightarrow> Some xs)
   \<and> callback_url (orderPayload mode now config addr ref isTest None) = None
   \<and> error_email_addresses (orderPayload mode now config addr ref isTest None) = None"
  by (simp add: orderPayload_def Let_def no_additional_options_def
      split: option.splits string_or_list.splits)

text \<open>
  C6 as stated fails for the bare string \<open>""\<close>: the payload has no \<open>callback_url\<close>
  member, not the one-element list.
\<close>

theorem placeOrder_empty_callback_counterexample:
  "callback_url (orderPayload ''test'' 1745765551460
      \<lparr> conf_products = Some [bare_product], conf_language = None \<rparr> sample_address ''ref-1'' (Some True)
      (Some (no_additional_options \<lparr> callbackUrl := Some (Single []) \<rparr>))) = None"
  by (simp add: orderPayload_def Let_def no_additional_options_def)

text \<open>
  C7. \<open>order_type\<close> is \<open>test\<close> exactly when \<open>isTest\<close> is true, and \<open>production\<close>
  otherwise; an omitted \<open>isTest\<close> stands for "the configured mode is \<open>test\<close>".
\<close>

theorem placeOrder_order_type:
  "((order_type (orderPayload mode now config addr ref (Some b) ao) = ''test'') = b)
   \<and> ((order_type (orderPayload mode now config addr ref (Some b) ao) = ''production'') = (\<not> b))
   \<and> ((order_type (orderPayload (PROBO_API_MODE env) now config addr ref None ao) = ''test'') =
        (PROBO_API_MODE env = ''test''))"
  by (simp add: orderPayload_def Let_def)

lemma order_id_generated:
  "orderId ao = None \<Longrightarrow>
   order_id (orderPayload mode now config addr ref isTest (Some ao)) = ''order-'' @ show_nat now"
  by (simp add: orderPayload_def Let_def or_string_def)

lemma order_id_generated_default:
  "order_id (orderPayload mode now config addr ref isTest None) = ''order-'' @ show_nat now"
  by (simp add: orderPayload_def Let_def or_string_def no_additional_options_def)

text \<open>
  C9, as the code has it. Without an \<open>orderId\<close> the \<open>id\<close> is \<open>order-\<close> followed by
  the clock reading in decimal: it is not empty, and two calls get different ids exactly
  when their clock readings differ.
\<close>

theorem placeOrder_generated_id:
  "order_id (orderPayload mode now config addr ref isTest None) = ''order-'' @ show_nat now
   \<and> order_id (orderPayload mode now config addr ref isTest (Some (ao \<lparr> orderId := None \<rparr>))) =
       ''order-'' @ show_nat now
   \<and> order_id (orderPayload mode now config addr ref isTest None) \<noteq> []
   \<and> ((order_id (orderPayload mode now config addr ref isTest None) =
        order_id (orderPayload mode' now' config' addr' ref' isTest' None)) = (now = now'))
   \<and> ((order_id (orderPayload mode now config addr ref isTest (Some (ao \<lparr> orderId := None \<rparr>))) =
        order_id (orderPayload mode' now' config' addr' ref' isTest' (Some (ao' \<lparr> orderId := None \<rparr>)))) =
       (now = now'))"
  using show_nat_inj [of now now']
  by (auto simp: order_id_generated order_id_generated_default)

text \<open>
  C9 as stated fails for two calls that read the same millisecond: both get the same
  \<open>id\<close>.
\<close>

theorem placeOrder_same_millisecond_counterexample:
  "order_id (orderPayload ''test'' 1745765551460
      \<lparr> conf_products = Some [bare_product], conf_language = None \<rparr> sample_address ''first'' None None) =
     ''order-1745765551460''
   \<and> order_id (orderPayload ''test'' 1745765551460
      \<lparr> conf_products = Some [bare_product], conf_language = None \<rparr> sample_address ''second'' None None) =
     ''order-1745765551460''"
  by (simp add: order_id_generated_default show_nat.simps digit_char_def)



section \<open>\<open>searchProducts\<close>: the reshaped response\<close>

lemma count_text_after_length_text:
  assumes "length_text stringify p = Some logged"
  shows "\<exists>n. count_text stringify (JObj [(''products'', p), (''meta'', m)]) = Some n
     \<and> (\<forall>xs. p = JArr xs \<longrightarrow> n = show_nat (length xs))"
  using assms
  by (cases p) (auto simp: count_text_def length_text_def length_member_def split: option.splits)

text \<open>
  A call succeeds exactly when the upstream answered with a body other than \<open>null\<close>
  and the log line could be written.
\<close>

lemma getProducts_success_iff:
  "(\<exists>result. getProducts stringify encode client_get query options = Inr result) =
   (\<exists>body logged.
      client_get (products_url encode stringify (case query of None \<Rightarrow> [] | Some q \<Rightarrow> q) options) = Inr body
      \<and> body \<noteq> JNull
      \<and> length_text stringify (or_json (get_prop body ''data'') (JArr [])) = Some logged)"
proof (cases "client_get (products_url encode stringify (case query of None \<Rightarrow> [] | Some q \<Rightarrow> q) options)")
  case (Inl e)
  then show ?thesis by (simp add: getProducts_def handleApiError_not_Inr)
next
  case (Inr body)
  then show ?thesis
    by (cases "body = JNull")
       (auto simp: getProducts_def handleApiError_not_Inr Let_def split: option.splits)
qed

text \<open>
  C8. Whenever the upstream answers a search with a body (other than \<open>null\<close>) and
  the log line can be written, which is when the call succeeds, the result is
  \<open>{products, meta}\<close>: \<open>products\<close> is the body's \<open>data\<close> member, or the empty list when
  that is missing (or falsy), and \<open>meta\<close> is the body's \<open>meta\<close>, or the empty object.
  The tool wraps that result with \<open>isError\<close> false, and its message counts the list.
\<close>

theorem searchProducts_reshapes_response:
  assumes "client_get (products_url encode stringify (case query of None \<Rightarrow> [] | Some q \<Rightarrow> q)
             \<lparr> page = Some (or_number pg 1), per_page = Some (or_number per 20) \<rparr>) = Inr body"
    and "body \<noteq> JNull"
    and "length_text stringify
           (case get_prop body ''data'' of
              None \<Rightarrow> JArr []
            | Some v \<Rightarrow> if truthy v then v else JArr []) = Some logged"
  shows "getProducts stringify encode client_get query
           \<lparr> page = Some (or_number pg 1), per_page = Some (or_number per 20) \<rparr> =
         Inr (JObj [(''products'', case get_prop body ''data'' of
                                      None \<Rightarrow> JArr []
                                    | Some v \<Rightarrow> if truthy v then v else JArr []),
                    (''meta'', case get_prop body ''meta'' of
                                  None \<Rightarrow> JObj []
                                | Some v \<Rightarrow> if truthy v then v else JObj [])])
     \<and> (\<exists>n. searchProducts_tool stringify encode client_get query lang pg per =
               \<lparr> result_text = ''Found '' @ n @ '' products'',
                 result_data =
                   Plain (JObj [(''products'', case get_prop body ''data'' of
                                                  None \<Rightarrow> JArr []
                                                | Some v \<Rightarrow> if truthy v then v else JArr []),
                                (''meta'', case get_prop body ''meta'' of
                                              None \<Rightarrow> JObj []
                                            | Some v \<Rightarrow> if truthy v then v else JObj [])]),
                 isError = False \<rparr>
            \<and> (\<forall>xs. get_prop body ''data'' = Some (JArr xs) \<longrightarrow> n = show_nat (length xs))
            \<and> (get_prop body ''data'' = None \<longrightarrow> n = ''0''))"
proof -
  let ?p = "or_json (get_prop body ''data'') (JArr [])"
  let ?m = "or_json (get_prop body ''meta'') (JObj [])"
  have p: "(case get_prop body ''data'' of None \<Rightarrow> JArr [] | Some v \<Rightarrow> if truthy v then v else JArr []) = ?p"
    and m: "(case get_prop body ''meta'' of None \<Rightarrow> JObj [] | Some v \<Rightarrow> if truthy v then v else JObj []) = ?m"
    by (simp_all add: or_json_def)
  from assms(3) have l: "length_text stringify ?p = Some logged" by (simp add: p)
  from assms(1,2) l have g: "getProducts stringify encode client_get query
      \<lparr> page = Some (or_number pg 1), per_page = Some (or_number per 20) \<rparr> =
      Inr (JObj [(''products'', ?p), (''meta'', ?m)])"
    by (simp add: getProducts_def)
  from count_text_after_length_text [OF l, of ?m] obtain n where
    n: "count_text stringify (JObj [(''products'', ?p), (''meta'', ?m)]) = Some n"
    and nl: "\<forall>xs. ?p = JArr xs \<longrightarrow> n = show_nat (length xs)"
    by blast
  have t: "searchProducts_tool stringify encode client_get query lang pg per =
      \<lparr> result_text = ''Found '' @ n @ '' products'',
        result_data = Plain (JObj [(''products'', ?p), (''meta'', ?m)]), isError = False \<rparr>"
    using g n by (simp add: searchProducts_tool_def formatResult_def)
  have z: "show_nat 0 = ''0''" by (simp add: show_nat.simps digit_char_def)
  have a: "\<forall>xs. get_prop body ''data'' = Some (JArr xs) \<longrightarrow> n = show_nat (length xs)"
    using nl by (auto simp: or_json_def)
  have b: "get_prop body ''data'' = None \<longrightarrow> n = ''0''"
    using nl z by (auto simp: or_json_def)
  show ?thesis
    using g t a b unfolding p m by (intro conjI exI [of _ n]) assumption+
qed

text \<open>
  The stub upstream of the claim, \<open>{data: [{code: "x"}], meta: {total: 1}}\<close>, and an
  upstream whose body \<open>{}\<close> has neither member.
\<close>

theorem searchProducts_reshapes_response_witness:
  "searchProducts_tool (\<lambda>j. ''{}'') (\<lambda>q. q)
     (\<lambda>url. Inr (JObj [(''data'', JArr [JObj [(''code'', JStr ''x'')]]), (''meta'', JObj [(''total'', JNum 1)])]))
     None None None None =
   \<lparr> result_text = ''Found 1 products'',
     result_data = Plain (JObj [(''products'', JArr [JObj [(''code'', JStr ''x'')]]),
                                (''meta'', JObj [(''total'', JNum 1)])]),
     isError = False \<rparr>
   \<and> getProducts (\<lambda>j. ''{}'') (\<lambda>q. q) (\<lambda>url. Inr (JObj [])) None
       \<lparr> page = Some (or_number None 1), per_page = Some (or_number None 20) \<rparr> =
     Inr (JObj [(''products'', JArr []), (''meta'', JObj [])])"
proof -
  let ?sf = "\<lambda>j :: json. ''{}''"
  let ?body = "JObj [(''data'', JArr [JObj [(''code'', JStr ''x'')]]), (''meta'', JObj [(''total'', JNum 1)])]"
  let ?stub = "\<lambda>url :: string. (Inr ?body :: http_error + json)"
  let ?empty = "\<lambda>url :: string. (Inr (JObj []) :: http_error + json)"
  let ?url = "products_url (\<lambda>q. q) ?sf (case None of None \<Rightarrow> [] | Some q \<Rightarrow> q)
                \<lparr> page = Some (or_number None 1), per_page = Some (or_number None 20) \<rparr>"
  have n1: "show_nat (Suc 0) = ''1''" by (simp add: show_nat.simps digit_char_def)
  have n0: "show_nat 0 = ''0''" by (simp add: show_nat.simps digit_char_def)
  have a1: "?stub ?url = Inr ?body" by simp
  have a2: "?body \<noteq> JNull" by simp
  have a3: "length_text ?sf (case get_prop ?body ''data'' of None \<Rightarrow> JArr []
              | Some v \<Rightarrow> if truthy v then v else JArr []) = Some ''1''"
    by (simp add: length_text_def n1)
  have b1: "?empty ?url = Inr (JObj [])" by simp
  have b2: "JObj [] \<noteq> JNull" by simp
  have b3: "length_text ?sf (case get_prop (JObj []) ''data'' of None \<Rightarrow> JArr []
              | Some v \<Rightarrow> if truthy v then v else JArr []) = Some ''0''"
    by (simp add: length_text_def n0)
  from searchProducts_reshapes_response [OF a1 a2 a3, where lang = None]
    searchProducts_reshapes_response [OF b1 b2 b3, where lang = None]
  show ?thesis by (auto simp: n1)
qed

section \<open>Tool handlers: what a failure becomes\<close>

text \<open>
  C4, at an upstream that rejects with status 400 and a JSON body. The normalised
  error carries the body as its data. The \<open>searchProducts\<close> and \<open>configureProduct\<close>
  handlers hand \<open>formatResult\<close> the message string, so the result has no \<open>details\<close>;
  the \<open>placeOrder\<close> handler hands it the error object, and the result has them.
\<close>

theorem searchProducts_tool_drops_details:
  "getProducts (\<lambda>j. ''{}'') (\<lambda>q. q) (\<lambda>url. Inl rejected) None \<lparr> page = Some 1, per_page = Some 20 \<rparr> =
     Inl \<lparr> message = ''Failed to fetch products: HTTP 400 - Invalid product'',
           data = Some (JObj [(''message'', JStr ''Invalid product'')]) \<rparr>
   \<and> searchProducts_tool (\<lambda>j. ''{}'') (\<lambda>q. q) (\<lambda>url. Inl rejected) None None None None =
     \<lparr> result_text = ''Error: Failed to fetch products: HTTP 400 - Invalid product'',
       result_data = ErrorData (ErrText ''Failed to fetch products: HTTP 400 - Invalid product'') None,
       isError = True \<rparr>
   \<and> fst (configureProduct_tool (\<lambda>j. ''{}'') (\<lambda>url p st. Inl rejected) [] ''banner'' None None None) =
     \<lparr> result_text = ''Error: Failed to configure product: HTTP 400 - Invalid product'',
       result_data = ErrorData (ErrText ''Failed to configure product: HTTP 400 - Invalid product'') None,
       isError = True \<rparr>
   \<and> placeOrder_tool (\<lambda>j. ''{}'') (\<lambda>url p. Inl rejected) ''test'' 1745765551460
       \<lparr> conf_products = Some [bare_product], conf_language = None \<rparr> sample_address ''ref-1'' None None =
     \<lparr> result_text = ''Error: Failed to place order: HTTP 400 - Invalid product'',
       result_data = ErrorData (ErrText ''Failed to place order: HTTP 400 - Invalid product'')
                       (Some (JObj [(''message'', JStr ''Invalid product'')])),
       isError = True \<rparr>"
  by (simp add: getProducts_def searchProducts_tool_def configureProduct_tool_def configureProduct_def
      configureProduct_payload_def array_new_def array_push_def caught_message_def
      placeOrder_tool_def placeOrder_def formatResult_def handleApiError_def response_message_def
      rejected_def body_detail_def truthy_prop_def show_nat_400 or_number_def)


end
